theory Spec2Isabelle
  imports Complex_Main
begin

section \<open>Audio-reactive LED control: the class variant (main.py) and the script variant (light.py)\<close>

text \<open>
  In the class variant, samples and decibel levels are floating-point numbers in the source;
  they are modelled as real numbers, and integer configuration values as integral reals.
  Where numpy would produce a non-finite value (the logarithm of a non-positive number, the
  mean of an empty array, the square root of a negative number) or Python would raise, the
  model returns a \<open>fault\<close>, so that "returns a finite value and does not raise" is the
  statement that the result is \<open>Inr\<close>. The gradient of the script variant truncates
  quotients that sit on integer boundaries, where the last bit decides the channel; its
  arithmetic is modelled as IEEE binary64, operation by operation.
\<close>

subsection \<open>Faults and numeric primitives\<close>

datatype fault =
    ZeroDivisionError
  | NonFiniteLog
  | NonFiniteMean
  | NonFiniteSqrt
  | AttributeError
  | ConfigurationError
  | OverflowError
  | NameError

text \<open>
  \<open>ConfigurationError\<close> is the error the specification names for a rejected configuration;
  no function of the source produces it. \<open>AttributeError\<close> is a method call on a strip
  that is still \<open>None\<close>, \<open>NameError\<close> the use of the script's global \<open>led_strip\<close> before
  it is bound, and \<open>OverflowError\<close> what \<open>int()\<close> raises on an infinite float.
\<close>

text \<open>\<open>np.any(a)\<close>: some element is non-zero (false on the empty array).\<close>

definition np_any :: "real list \<Rightarrow> bool" where
  "np_any a = list_ex (\<lambda>x. x \<noteq> 0) a"

text \<open>\<open>np.mean(a)\<close>: the arithmetic mean; numpy yields \<open>nan\<close> on an empty array.\<close>

definition np_mean :: "real list \<Rightarrow> fault + real" where
  "np_mean a = (if a = [] then Inl NonFiniteMean else Inr (sum_list a / real (length a)))"

text \<open>\<open>np.sqrt(x)\<close>: numpy yields \<open>nan\<close> below zero.\<close>

definition np_sqrt :: "real \<Rightarrow> fault + real" where
  "np_sqrt x = (if x < 0 then Inl NonFiniteSqrt else Inr (sqrt x))"

text \<open>\<open>np.log10(x)\<close>: numpy yields \<open>-inf\<close> at zero and \<open>nan\<close> below it.\<close>

definition np_log10 :: "real \<Rightarrow> fault + real" where
  "np_log10 x = (if x \<le> 0 then Inl NonFiniteLog else Inr (log 10 x))"

text \<open>Python's \<open>a / b\<close> on numbers.\<close>

definition py_truediv :: "real \<Rightarrow> real \<Rightarrow> fault + real" where
  "py_truediv a b = (if b = 0 then Inl ZeroDivisionError else Inr (a / b))"

text \<open>Python's \<open>int(x)\<close> on a finite float: truncation towards zero.\<close>

definition py_int :: "real \<Rightarrow> int" where
  "py_int x = (if 0 \<le> x then \<lfloor>x\<rfloor> else \<lceil>x\<rceil>)"

subsection \<open>Python floats: IEEE binary64 arithmetic\<close>

text \<open>
  A Python float is an IEEE binary64 number, and \<open>*\<close>, \<open>-\<close> and \<open>/\<close> on floats return the
  exact result rounded to the nearest binary64 number, ties to the even significand. A
  finite float is the real number it denotes. \<open>round_half_even\<close> rounds a real to an
  integer, \<open>ulp_exponent x\<close> is the exponent of the unit in the last place for the binade of
  \<open>x\<close> (52 below the exponent of \<open>x\<close>, and \<open>-1074\<close> throughout the subnormal range), and
  \<open>round_double\<close> rounds to the nearest multiple of that unit.
\<close>

definition round_half_even :: "real \<Rightarrow> int" where
  "round_half_even r =
     (let f = \<lfloor>r\<rfloor>; d = r - of_int f in
      if d < 1 / 2 then f else if 1 / 2 < d then f + 1 else if even f then f else f + 1)"

definition ulp_exponent :: "real \<Rightarrow> int" where
  "ulp_exponent x = max \<lfloor>log 2 \<bar>x\<bar>\<rfloor> (- 1022) - 52"

definition round_double :: "real \<Rightarrow> real" where
  "round_double x =
     (if x = 0 then 0
      else of_int (round_half_even (x / 2 powi ulp_exponent x)) * 2 powi ulp_exponent x)"

text \<open>
  A result whose rounded magnitude reaches \<open>2 ^ 1024\<close> is infinite. In \<open>calculate_color\<close>
  every arithmetic result flows into \<open>int()\<close>, which raises \<open>OverflowError\<close> on an infinite
  float, so the infinite result is modelled by that fault.
\<close>

definition to_double :: "real \<Rightarrow> fault + real" where
  "to_double x = (let y = round_double x in if 2 ^ 1024 \<le> \<bar>y\<bar> then Inl OverflowError else Inr y)"

definition float_mul :: "real \<Rightarrow> real \<Rightarrow> fault + real" where
  "float_mul a b = to_double (a * b)"

definition float_sub :: "real \<Rightarrow> real \<Rightarrow> fault + real" where
  "float_sub a b = to_double (a - b)"

definition float_truediv :: "real \<Rightarrow> real \<Rightarrow> fault + real" where
  "float_truediv a b = (if b = 0 then Inl ZeroDivisionError else to_double (a / b))"

text \<open>Sequencing: the first fault ends the computation, as an exception does.\<close>

definition bind_fault :: "fault + 'a \<Rightarrow> ('a \<Rightarrow> fault + 'b) \<Rightarrow> fault + 'b" where
  "bind_fault m f = (case m of Inl e \<Rightarrow> Inl e | Inr v \<Rightarrow> f v)"

text \<open>\<open>np.sqrt(np.mean(a**2))\<close>, the expression both variants use for the RMS.\<close>

definition sqrt_mean_square :: "real list \<Rightarrow> fault + real" where
  "sqrt_mean_square a =
     (case np_mean (map (\<lambda>x. x ^ 2) a) of
        Inl e \<Rightarrow> Inl e
      | Inr m \<Rightarrow> np_sqrt m)"

text \<open>The root-mean-square of a chunk as a plain real number, for stating results.\<close>

definition rms :: "real list \<Rightarrow> real" where
  "rms a = sqrt (sum_list (map (\<lambda>x. x ^ 2) a) / real (length a))"

subsection \<open>The LED strip as a recorder of calls\<close>

text \<open>
  The strip driver is an external collaborator. \<open>Color r g b\<close> stands for
  \<open>rpi_ws281x.Color(red, green, blue)\<close> with its arguments in call order; the strip
  object records the calls made on it.
\<close>

datatype color = Color int int int

datatype sink_call =
    StripBegin
  | SetPixelColor nat color
  | Show
  | BlinktSetPixel nat int int int
  | BlinktShow
  | BlinktClear

record NeoPixel =
  num :: nat
  calls :: "sink_call list"

definition numPixels :: "NeoPixel \<Rightarrow> nat" where
  "numPixels s = num s"

definition setPixelColor :: "nat \<Rightarrow> color \<Rightarrow> NeoPixel \<Rightarrow> NeoPixel" where
  "setPixelColor i c s = s\<lparr>calls := calls s @ [SetPixelColor i c]\<rparr>"

definition show_strip :: "NeoPixel \<Rightarrow> NeoPixel" where
  "show_strip s = s\<lparr>calls := calls s @ [Show]\<rparr>"

subsection \<open>main.py: class AudioVisualizer\<close>

datatype console_line =
    Error_in_audio_stream nat
  | Listening
  | Error_line string
  | Stopping
  | Exiting
  | An_error_occurred string
  | LEDs_cleared
  | Strip_initialized

datatype stream_state = Created | Started | Stopped | Closed

record AudioVisualizer =
  led_count :: nat
  led_pin :: int
  led_freq_hz :: int
  led_dma :: int
  led_invert :: bool
  led_brightness :: int
  led_channel :: int
  led_strip :: int
  sample_rate :: int
  chunk_size :: int
  min_db :: real
  max_db :: real
  sensitivity :: real
  strip :: "NeoPixel option"
  audio_data :: "real list"
  audio_event :: bool
  running :: bool
  stream :: "stream_state option"
  console :: "console_line list"

text \<open>
  \<open>__init__\<close> stores its thirteen arguments and initialises the run state. It has no
  failing path; the result type has one only so that "construction fails" can be stated.
\<close>

definition init :: "nat \<Rightarrow> int \<Rightarrow> int \<Rightarrow> int \<Rightarrow> bool \<Rightarrow> int \<Rightarrow> int \<Rightarrow> int \<Rightarrow>
    int \<Rightarrow> int \<Rightarrow> real \<Rightarrow> real \<Rightarrow> real \<Rightarrow> fault + AudioVisualizer" where
  "init led_count' led_pin' led_freq_hz' led_dma' led_invert' led_brightness' led_channel'
        led_strip' sample_rate' chunk_size' min_db' max_db' sensitivity' =
     Inr \<lparr> led_count = led_count', led_pin = led_pin', led_freq_hz = led_freq_hz',
           led_dma = led_dma', led_invert = led_invert', led_brightness = led_brightness',
           led_channel = led_channel', led_strip = led_strip',
           sample_rate = sample_rate', chunk_size = chunk_size',
           min_db = min_db', max_db = max_db', sensitivity = sensitivity',
           strip = None, audio_data = [], audio_event = False, running = True,
           stream = None, console = [] \<rparr>"

definition get_decibel_level :: "AudioVisualizer \<Rightarrow> real list \<Rightarrow> fault + real" where
  "get_decibel_level self audio_chunk =
     (if np_any audio_chunk then
        (let p_ref = 20 / 10 ^ 6 in
         case sqrt_mean_square audio_chunk of
           Inl e \<Rightarrow> Inl e
         | Inr rms' \<Rightarrow>
             if rms' > 0 then
               (case np_log10 (rms' / p_ref) of
                  Inl e \<Rightarrow> Inl e
                | Inr l \<Rightarrow> Inr (max (min_db self) (20 * l)))
             else Inr (min_db self))
      else Inr (min_db self))"

definition map_brightness :: "AudioVisualizer \<Rightarrow> real \<Rightarrow> fault + int" where
  "map_brightness self db =
     (let clamped_db = max (min_db self) (min (max_db self) db) in
      case py_truediv (clamped_db - min_db self) (max_db self - min_db self) of
        Inl e \<Rightarrow> Inl e
      | Inr q \<Rightarrow> Inr (py_int (q * 255)))"

text \<open>
  \<open>audio_callback\<close> runs on the audio thread. \<open>status\<close> is the sounddevice flag set,
  truthy exactly when some flag is set; it is modelled by the number holding the flags.
\<close>

definition audio_callback :: "AudioVisualizer \<Rightarrow> real list \<Rightarrow> nat \<Rightarrow> real \<Rightarrow> nat \<Rightarrow> AudioVisualizer" where
  "audio_callback self indata frames time status =
     (if status \<noteq> 0 then self\<lparr>console := console self @ [Error_in_audio_stream status]\<rparr>
      else self\<lparr>audio_data := indata, audio_event := True\<rparr>)"

text \<open>
  \<open>update_leds\<close> runs on the LED thread, concurrently with the audio callback and with
  \<open>run\<close>. It is modelled as a step function over the thread's control points, so that the
  other threads' actions can be placed between its steps: the loop test, the blocking
  \<open>wait()\<close> (a step that changes nothing while the event is clear), \<open>clear()\<close>, the second
  test of \<open>running\<close>, and the rendering of one frame. The stream is opened with one channel,
  so \<open>audio_data[:, 0]\<close> is the list of samples itself.
\<close>

datatype led_pc = AtWhile | AtWait | AtClear | AtCheck | AtRender | Returned

definition fill :: "color \<Rightarrow> NeoPixel \<Rightarrow> NeoPixel" where
  "fill c s = fold (\<lambda>i. setPixelColor i c) [0..<numPixels s] s"

definition render :: "AudioVisualizer \<Rightarrow> fault + AudioVisualizer" where
  "render self =
     (if length (audio_data self) > 0 then
        (case get_decibel_level self (audio_data self) of
           Inl e \<Rightarrow> Inl e
         | Inr db \<Rightarrow>
            (case map_brightness self db of
               Inl e \<Rightarrow> Inl e
             | Inr brightness \<Rightarrow>
                (case strip self of
                   None \<Rightarrow> Inl AttributeError
                 | Some s \<Rightarrow>
                     Inr (self\<lparr>strip := Some (show_strip (fill (Color 0 brightness 0) s))\<rparr>))))
      else Inr self)"

definition update_leds_step :: "led_pc \<times> AudioVisualizer \<Rightarrow> fault + (led_pc \<times> AudioVisualizer)" where
  "update_leds_step cfg =
     (case cfg of (pc, self) \<Rightarrow>
        (case pc of
           AtWhile \<Rightarrow> Inr (if running self then AtWait else Returned, self)
         | AtWait \<Rightarrow> Inr (if audio_event self then AtClear else AtWait, self)
         | AtClear \<Rightarrow> Inr (AtCheck, self\<lparr>audio_event := False\<rparr>)
         | AtCheck \<Rightarrow> Inr (if \<not> running self then Returned else AtRender, self)
         | AtRender \<Rightarrow>
             (case render self of Inl e \<Rightarrow> Inl e | Inr self' \<Rightarrow> Inr (AtWhile, self'))
         | Returned \<Rightarrow> Inr (Returned, self)))"

fun update_leds_steps :: "nat \<Rightarrow> led_pc \<times> AudioVisualizer \<Rightarrow> fault + (led_pc \<times> AudioVisualizer)" where
  "update_leds_steps 0 cfg = Inr cfg"
| "update_leds_steps (Suc n) cfg =
     (case update_leds_step cfg of Inl e \<Rightarrow> Inl e | Inr cfg' \<Rightarrow> update_leds_steps n cfg')"

text \<open>
  \<open>run\<close>: the strip is created and begun before the \<open>try\<close>. The body of the \<open>try\<close> ends
  in \<open>while True: time.sleep(1)\<close>, so it is left only by an exception; \<open>try_exit\<close> says
  where. The two handlers are functions of their own, to be interleaved with the steps of
  the other threads.
\<close>

datatype try_exit =
    InputStream_raised string
  | stream_start_raised string
  | KeyboardInterrupt_raised

definition run_setup :: "AudioVisualizer \<Rightarrow> AudioVisualizer" where
  "run_setup self = self\<lparr>strip := Some \<lparr>num = led_count self, calls = [StripBegin]\<rparr>\<rparr>"

definition except_Exception :: "string \<Rightarrow> AudioVisualizer \<Rightarrow> AudioVisualizer" where
  "except_Exception e self = self\<lparr>console := console self @ [Error_line e]\<rparr>"

definition except_KeyboardInterrupt :: "AudioVisualizer \<Rightarrow> fault + AudioVisualizer" where
  "except_KeyboardInterrupt self =
     (let self1 = self\<lparr>console := console self @ [Stopping], running := False,
                       audio_event := True\<rparr>;
          self2 = (case stream self1 of
                     None \<Rightarrow> self1
                   | Some _ \<Rightarrow> self1\<lparr>stream := Some Closed\<rparr>)
      in case strip self2 of
           None \<Rightarrow> Inl AttributeError
         | Some s \<Rightarrow>
             Inr (self2\<lparr>strip := Some (show_strip (fill (Color 0 0 0) s)),
                        console := console self2 @ [Exiting]\<rparr>))"

definition run :: "AudioVisualizer \<Rightarrow> try_exit \<Rightarrow> fault + AudioVisualizer" where
  "run self ex =
     (let self1 = run_setup self in
      case ex of
        InputStream_raised e \<Rightarrow> Inr (except_Exception e self1)
      | stream_start_raised e \<Rightarrow> Inr (except_Exception e (self1\<lparr>stream := Some Created\<rparr>))
      | KeyboardInterrupt_raised \<Rightarrow>
          except_KeyboardInterrupt
            (self1\<lparr>stream := Some Started, console := console self1 @ [Listening]\<rparr>))"

text \<open>The visualizer the \<open>__main__\<close> block constructs (\<open>ws.WS2811_STRIP_GRB\<close> is 0x00081000).\<close>

definition visualizer :: AudioVisualizer where
  "visualizer =
     \<lparr> led_count = 300, led_pin = 18, led_freq_hz = 800000, led_dma = 10,
       led_invert = False, led_brightness = 255, led_channel = 0, led_strip = 528384,
       sample_rate = 44100, chunk_size = 512, min_db = 40, max_db = 90, sensitivity = 200,
       strip = None, audio_data = [], audio_event = False, running = True,
       stream = None, console = [] \<rparr>"

subsection \<open>light.py: the script variant\<close>

datatype led_type = WS281x | Blinkt

definition LED_COUNT :: nat where
  "LED_COUNT = 30"

definition SENSITIVITY :: real where
  "SENSITIVITY = 100"

text \<open>
  \<open>calculate_color\<close> reads the module constant \<open>SENSITIVITY\<close>, which the script documents
  as the user's setting; \<open>calculate_color_with\<close> is its body with the setting as an argument.
  The amplitude is a Python float. The source evaluates \<open>SENSITIVITY / 3\<close> and
  \<open>2 * SENSITIVITY / 3\<close> afresh at each occurrence; each evaluation gives the same float, so
  the model names them once.
\<close>

definition calculate_color_with :: "real \<Rightarrow> real \<Rightarrow> fault + (int \<times> int \<times> int)" where
  "calculate_color_with S amplitude =
     bind_fault (float_truediv S 3) (\<lambda>third.
       if amplitude < third then
         bind_fault (float_mul 255 amplitude) (\<lambda>p.
         bind_fault (float_truediv p third) (\<lambda>q.
           let g = py_int q in Inr (0, g, 255 - g)))
       else
         bind_fault (float_mul 2 S) (\<lambda>twice.
         bind_fault (float_truediv twice 3) (\<lambda>two_thirds.
           if amplitude < two_thirds then
             bind_fault (float_sub amplitude third) (\<lambda>d.
             bind_fault (float_mul 255 d) (\<lambda>p.
             bind_fault (float_truediv p third) (\<lambda>q.
               Inr (py_int q, 255, 0))))
           else
             bind_fault (float_sub amplitude two_thirds) (\<lambda>d.
             bind_fault (float_mul 255 d) (\<lambda>p.
             bind_fault (float_truediv p third) (\<lambda>q.
               Inr (255, 255 - py_int q, 0)))))))"

definition calculate_color :: "real \<Rightarrow> fault + (int \<times> int \<times> int)" where
  "calculate_color amplitude = calculate_color_with SENSITIVITY amplitude"

text \<open>
  The script's state: the global \<open>led_strip\<close>, which is bound only once the constructor
  call inside the \<open>try\<close> has returned, a recorder for the calls made on the \<open>blinkt\<close>
  module, and the console.
\<close>

record script =
  led_strip_obj :: "NeoPixel option"
  blinkt_rec :: NeoPixel
  out :: "console_line list"

fun set_pixels_ws281x :: "(nat \<times> int \<times> int \<times> int) list \<Rightarrow> NeoPixel \<Rightarrow> NeoPixel" where
  "set_pixels_ws281x [] s = s"
| "set_pixels_ws281x ((i, r, g, b) # rest) s =
     set_pixels_ws281x rest (setPixelColor i (Color g r b) s)"

fun set_pixels_blinkt :: "(nat \<times> int \<times> int \<times> int) list \<Rightarrow> NeoPixel \<Rightarrow> NeoPixel" where
  "set_pixels_blinkt [] s = s"
| "set_pixels_blinkt ((i, r, g, b) # rest) s =
     set_pixels_blinkt rest (s\<lparr>calls := calls s @ [BlinktSetPixel i r g b]\<rparr>)"

definition set_leds :: "led_type \<Rightarrow> (int \<times> int \<times> int) list \<Rightarrow> NeoPixel \<Rightarrow> NeoPixel" where
  "set_leds t led_data s =
     (case t of
        WS281x \<Rightarrow> show_strip (set_pixels_ws281x (enumerate 0 led_data) s)
      | Blinkt \<Rightarrow>
          (let s' = set_pixels_blinkt (enumerate 0 led_data) s
           in s'\<lparr>calls := calls s' @ [BlinktShow]\<rparr>))"

fun led_colors :: "nat \<Rightarrow> real \<Rightarrow> fault + (int \<times> int \<times> int) list" where
  "led_colors 0 amplitude = Inr []"
| "led_colors (Suc n) amplitude =
     (case calculate_color amplitude of
        Inl e \<Rightarrow> Inl e
      | Inr c \<Rightarrow>
         (case led_colors n amplitude of
            Inl e \<Rightarrow> Inl e
          | Inr cs \<Rightarrow> Inr (c # cs)))"

definition script_audio_callback :: "led_type \<Rightarrow> script \<Rightarrow> real list \<Rightarrow> nat \<Rightarrow> real \<Rightarrow> nat \<Rightarrow> fault + script" where
  "script_audio_callback t st indata frames time status =
     (if status \<noteq> 0 then Inr (st\<lparr>out := out st @ [Error_in_audio_stream status]\<rparr>)
      else
        (case sqrt_mean_square indata of
           Inl e \<Rightarrow> Inl e
         | Inr amplitude \<Rightarrow>
            (case led_colors LED_COUNT amplitude of
               Inl e \<Rightarrow> Inl e
             | Inr cs \<Rightarrow>
                (case t of
                   WS281x \<Rightarrow>
                     (case led_strip_obj st of
                        None \<Rightarrow> Inl NameError
                      | Some s \<Rightarrow> Inr (st\<lparr>led_strip_obj := Some (set_leds t cs s)\<rparr>))
                 | Blinkt \<Rightarrow> Inr (st\<lparr>blinkt_rec := set_leds t cs (blinkt_rec st)\<rparr>)))))"

text \<open>
  The \<open>finally\<close> block of the script: it runs on every way out of the \<open>try\<close>, also when
  the strip's constructor raised and \<open>led_strip\<close> is unbound.
\<close>

definition script_finally :: "led_type \<Rightarrow> script \<Rightarrow> fault + script" where
  "script_finally t st =
     (case t of
        WS281x \<Rightarrow>
          (case led_strip_obj st of
             None \<Rightarrow> Inl NameError
           | Some s \<Rightarrow>
               Inr (st\<lparr>led_strip_obj :=
                          Some (show_strip (fold (\<lambda>i. setPixelColor i (Color 0 0 0)) [0..<LED_COUNT] s)),
                        out := out st @ [LEDs_cleared]\<rparr>))
      | Blinkt \<Rightarrow>
          Inr (st\<lparr>blinkt_rec := (blinkt_rec st)\<lparr>calls := calls (blinkt_rec st) @ [BlinktClear, BlinktShow]\<rparr>,
                   out := out st @ [LEDs_cleared]\<rparr>))"

text \<open>
  The floats \<open>SENSITIVITY / 3\<close> (33.333333333333336) and \<open>2 * SENSITIVITY / 3\<close>
  (66.66666666666667), as the fractions they denote.
\<close>

definition sens_third :: real where
  "sens_third = 4691249611844267 / 140737488355328"

definition sens_two_thirds :: real where
  "sens_two_thirds = 4691249611844267 / 70368744177664"

text \<open>
  The visualizer of the \<open>__main__\<close> block once \<open>run\<close> has reached its \<open>while True\<close> loop:
  strip begun, stream started, "Listening" printed.
\<close>

definition listening :: AudioVisualizer where
  "listening = (run_setup visualizer)\<lparr>stream := Some Started, console := [Listening]\<rparr>"

section \<open>Properties\<close>

subsection \<open>Numeric helpers\<close>

lemma sum_list_squares_nonneg: "0 \<le> sum_list (map (\<lambda>x. x ^ 2) (a :: real list))"
  by (induction a) auto

lemma sum_list_squares_zero_iff:
  "sum_list (map (\<lambda>x. x ^ 2) (a :: real list)) = 0 \<longleftrightarrow> list_all (\<lambda>x. x = 0) a"
proof (induction a)
  case Nil
  show ?case by simp
next
  case (Cons x a)
  have "x ^ 2 + sum_list (map (\<lambda>x. x ^ 2) a) = 0 \<longleftrightarrow>
        x ^ 2 = 0 \<and> sum_list (map (\<lambda>x. x ^ 2) a) = 0"
    using sum_list_squares_nonneg [of a] zero_le_power2 [of x]
    by (simp add: add_nonneg_eq_0_iff)
  with Cons show ?case by simp
qed

lemma np_any_iff: "np_any a \<longleftrightarrow> \<not> list_all (\<lambda>x. x = 0) a"
  by (induction a) (auto simp: np_any_def)

lemma sqrt_mean_square_eq: "a \<noteq> [] \<Longrightarrow> sqrt_mean_square a = Inr (rms a)"
proof -
  assume ne: "a \<noteq> []"
  have "0 \<le> sum_list (map (\<lambda>x. x ^ 2) a) / real (length a)"
    using sum_list_squares_nonneg [of a] by simp
  with ne show ?thesis
    by (simp add: sqrt_mean_square_def np_mean_def np_sqrt_def rms_def)
qed

lemma rms_nonneg: "0 \<le> rms a"
  using sum_list_squares_nonneg [of a] by (simp add: rms_def)

lemma rms_zero_iff: "a \<noteq> [] \<Longrightarrow> rms a = 0 \<longleftrightarrow> list_all (\<lambda>x. x = 0) a"
  using sum_list_squares_zero_iff [of a] by (simp add: rms_def)

lemma rms_pos: "\<not> list_all (\<lambda>x. x = 0) chunk \<Longrightarrow> 0 < rms chunk"
proof -
  assume ns: "\<not> list_all (\<lambda>x. x = 0) chunk"
  then have "chunk \<noteq> []" by auto
  with ns show ?thesis
    using rms_zero_iff [of chunk] rms_nonneg [of chunk] by (simp add: less_le)
qed

lemma decibel_of_silent:
  "list_all (\<lambda>x. x = 0) chunk \<Longrightarrow> get_decibel_level self chunk = Inr (min_db self)"
  by (simp add: get_decibel_level_def np_any_iff)

lemma decibel_of_nonsilent:
  assumes "\<not> list_all (\<lambda>x. x = 0) chunk"
  shows "get_decibel_level self chunk =
           Inr (max (min_db self) (20 * log 10 (rms chunk / (20 / 10 ^ 6))))"
proof -
  from assms have ne: "chunk \<noteq> []" by auto
  from assms ne rms_pos [OF assms] show ?thesis
    by (simp add: get_decibel_level_def np_any_iff sqrt_mean_square_eq np_log10_def Let_def)
qed

lemma map_brightness_eq:
  assumes "min_db self < max_db self"
  shows "map_brightness self db =
           Inr \<lfloor>(max (min_db self) (min (max_db self) db) - min_db self)
                  / (max_db self - min_db self) * 255\<rfloor>"
proof -
  have "0 \<le> (max (min_db self) (min (max_db self) db) - min_db self)
              / (max_db self - min_db self) * 255"
    using assms by simp
  with assms show ?thesis
    by (simp add: map_brightness_def py_truediv_def py_int_def Let_def)
qed

lemma map_brightness_mono:
  assumes "min_db self < max_db self" and "x \<le> y"
  shows "\<exists>a b. map_brightness self x = Inr a \<and> map_brightness self y = Inr b \<and> a \<le> b"
proof -
  let ?f = "\<lambda>db. (max (min_db self) (min (max_db self) db) - min_db self)
                  / (max_db self - min_db self) * 255"
  have "max (min_db self) (min (max_db self) x) \<le> max (min_db self) (min (max_db self) y)"
    using assms(2) by auto
  then have "?f x \<le> ?f y"
    using assms(1) by (simp add: divide_right_mono)
  then have "\<lfloor>?f x\<rfloor> \<le> \<lfloor>?f y\<rfloor>"
    by (rule floor_mono)
  then show ?thesis
    by (simp add: map_brightness_eq [OF assms(1)])
qed

subsection \<open>C1: decibel extraction\<close>

text \<open>
  C1. For every chunk and every floor, \<open>get_decibel_level\<close> returns a value (it neither
  raises nor takes the logarithm of a non-positive number, which would be a fault): the
  floor itself when all samples are zero or the RMS is zero, and otherwise
  \<open>max floor (20 * log10 (rms / 20e-6))\<close>.
\<close>

theorem get_decibel_level_value:
  "get_decibel_level self chunk =
     Inr (if list_all (\<lambda>x. x = 0) chunk \<or> rms chunk = 0 then min_db self
          else max (min_db self) (20 * log 10 (rms chunk / (20 / 10 ^ 6))))"
proof (cases "list_all (\<lambda>x. x = 0) chunk")
  case True
  then show ?thesis
    by (simp add: decibel_of_silent)
next
  case False
  with rms_pos [OF False] show ?thesis
    by (simp add: decibel_of_nonsilent)
qed

subsection \<open>C3: the brightness mapping\<close>

text \<open>
  C3. With floor below ceiling, \<open>map_brightness\<close> is 0 at the floor and 255 at the ceiling,
  takes below the floor the value it has at the floor and above the ceiling the value it
  has at the ceiling, and is monotone non-decreasing in the loudness.
\<close>

theorem map_brightness_monotone_clamps:
  assumes "min_db self < max_db self"
  shows "map_brightness self (min_db self) = Inr 0
       \<and> map_brightness self (max_db self) = Inr 255
       \<and> (\<forall>x. x < min_db self \<longrightarrow> map_brightness self x = map_brightness self (min_db self))
       \<and> (\<forall>x. x > max_db self \<longrightarrow> map_brightness self x = map_brightness self (max_db self))
       \<and> (\<forall>x y. x \<le> y \<longrightarrow>
            (\<exists>a b. map_brightness self x = Inr a \<and> map_brightness self y = Inr b \<and> a \<le> b))"
proof -
  have lo: "map_brightness self (min_db self) = Inr 0"
    using assms by (simp add: map_brightness_eq)
  have hi: "map_brightness self (max_db self) = Inr 255"
    using assms by (simp add: map_brightness_eq)
  have below: "map_brightness self x = map_brightness self (min_db self)" if "x < min_db self" for x
    using assms that by (simp add: map_brightness_eq)
  have above: "map_brightness self x = map_brightness self (max_db self)" if "x > max_db self" for x
    using assms that by (simp add: map_brightness_eq)
  from lo hi below above map_brightness_mono [OF assms] show ?thesis
    by blast
qed

theorem map_brightness_monotone_clamps_witness:
  "min_db visualizer < max_db visualizer
   \<and> map_brightness visualizer 40 = Inr 0
   \<and> map_brightness visualizer 90 = Inr 255
   \<and> map_brightness visualizer 12 = map_brightness visualizer 40
   \<and> map_brightness visualizer 120 = map_brightness visualizer 90
   \<and> (\<exists>a b. map_brightness visualizer 50 = Inr a \<and> map_brightness visualizer 60 = Inr b \<and> a \<le> b)"
proof -
  have h: "min_db visualizer < max_db visualizer"
    by (simp add: visualizer_def)
  have m: "min_db visualizer = 40" "max_db visualizer = 90"
    by (simp_all add: visualizer_def)
  from map_brightness_monotone_clamps [OF h] h show ?thesis
    unfolding m by simp
qed

subsection \<open>Rounding to binary64: evaluation and monotonicity\<close>

lemma floor_log2_eq:
  assumes "2 powi k \<le> x" "x < 2 powi (k + 1)"
  shows "\<lfloor>log 2 x\<rfloor> = k"
proof -
  have pos: "0 < x"
    using assms(1) by (smt (verit) zero_less_power_int)
  have a: "real_of_int k \<le> log 2 x"
    using assms(1) pos by (simp add: le_log_iff powr_real_of_int')
  have b: "log 2 x < real_of_int (k + 1)"
    using assms(2) pos by (simp add: log_less_iff powr_real_of_int' del: of_int_add)
  from a b show ?thesis
    by (simp add: floor_eq_iff)
qed

lemma round_double_binade:
  assumes "2 powi k \<le> \<bar>x\<bar>" "\<bar>x\<bar> < 2 powi (k + 1)" "- 1022 \<le> k"
  shows "round_double x = of_int (round_half_even (x / 2 powi (k - 52))) * 2 powi (k - 52)"
proof -
  have "\<lfloor>log 2 \<bar>x\<bar>\<rfloor> = k"
    using assms(1,2) by (rule floor_log2_eq)
  then have e: "ulp_exponent x = k - 52"
    using assms(3) by (simp add: ulp_exponent_def)
  have "x \<noteq> 0"
    using assms(1) by (smt (verit) zero_less_power_int abs_zero)
  then show ?thesis
    by (simp add: round_double_def e)
qed

lemma round_half_even_bounds: "\<lfloor>r\<rfloor> \<le> round_half_even r \<and> round_half_even r \<le> \<lfloor>r\<rfloor> + 1"
  by (simp add: round_half_even_def Let_def)

lemma round_half_even_of_int: "round_half_even (of_int n) = n"
  by (simp add: round_half_even_def)

lemma round_half_even_mono:
  assumes "r \<le> s"
  shows "round_half_even r \<le> round_half_even s"
proof (cases "\<lfloor>r\<rfloor> < \<lfloor>s\<rfloor>")
  case True
  have "round_half_even r \<le> \<lfloor>r\<rfloor> + 1"
    using round_half_even_bounds [of r] by simp
  also have "\<dots> \<le> \<lfloor>s\<rfloor>"
    using True by simp
  also have "\<dots> \<le> round_half_even s"
    using round_half_even_bounds [of s] by simp
  finally show ?thesis .
next
  case False
  with floor_mono [OF assms] have eq: "\<lfloor>r\<rfloor> = \<lfloor>s\<rfloor>"
    by simp
  with assms show ?thesis
    by (auto simp: round_half_even_def Let_def)
qed

lemma binade_of_pos:
  assumes "0 < (x::real)"
  shows "2 powi \<lfloor>log 2 x\<rfloor> \<le> x" and "x < 2 powi (\<lfloor>log 2 x\<rfloor> + 1)"
proof -
  have "2 powr real_of_int \<lfloor>log 2 x\<rfloor> \<le> 2 powr log 2 x"
    by (simp add: powr_mono)
  then show "2 powi \<lfloor>log 2 x\<rfloor> \<le> x"
    using assms by (simp add: powr_real_of_int')
  have "2 powr log 2 x < 2 powr real_of_int (\<lfloor>log 2 x\<rfloor> + 1)"
    by (intro powr_less_mono) simp_all
  then show "x < 2 powi (\<lfloor>log 2 x\<rfloor> + 1)"
    using assms by (simp add: powr_real_of_int' del: of_int_add)
qed

lemma ulp_exponent_mono:
  assumes "0 < x" "x \<le> y"
  shows "ulp_exponent x \<le> ulp_exponent y"
proof -
  have "log 2 x \<le> log 2 y"
    using assms by simp
  then have "\<lfloor>log 2 x\<rfloor> \<le> \<lfloor>log 2 y\<rfloor>"
    by (rule floor_mono)
  then show ?thesis
    using assms by (simp add: ulp_exponent_def)
qed

lemma two_powi_mono: "a \<le> b \<Longrightarrow> (2::real) powi a \<le> 2 powi b"
  by (rule power_int_increasing) simp_all

lemma round_double_pos_eq:
  "0 < x \<Longrightarrow> round_double x =
     of_int (round_half_even (x / 2 powi ulp_exponent x)) * 2 powi ulp_exponent x"
  by (simp add: round_double_def)

lemma round_double_upper:
  assumes "0 < x"
  shows "round_double x \<le> 2 powi (ulp_exponent x + 53)"
proof -
  let ?e = "ulp_exponent x"
  have u: "(0::real) < 2 powi ?e" by simp
  have "x < 2 powi (\<lfloor>log 2 x\<rfloor> + 1)"
    using binade_of_pos(2) [OF assms] .
  also have "\<dots> \<le> 2 powi (?e + 53)"
    using assms by (intro two_powi_mono) (simp add: ulp_exponent_def)
  also have "\<dots> = 2 ^ 53 * 2 powi ?e"
    by (simp add: power_int_add)
  finally have "x / 2 powi ?e \<le> of_int (2 ^ 53)"
    using u by (simp add: field_simps)
  then have "round_half_even (x / 2 powi ?e) \<le> 2 ^ 53"
    using round_half_even_mono round_half_even_of_int by metis
  then have "real_of_int (round_half_even (x / 2 powi ?e)) \<le> 2 ^ 53"
    by (metis of_int_le_iff of_int_numeral of_int_power)
  then have "real_of_int (round_half_even (x / 2 powi ?e)) * 2 powi ?e \<le> 2 ^ 53 * 2 powi ?e"
    using u by simp
  then show ?thesis
    using assms by (simp add: round_double_pos_eq power_int_add)
qed

lemma round_double_lower:
  assumes "0 < x" "- 1022 \<le> \<lfloor>log 2 x\<rfloor>"
  shows "2 powi (ulp_exponent x + 52) \<le> round_double x"
proof -
  let ?e = "ulp_exponent x"
  have u: "(0::real) < 2 powi ?e" by simp
  have e: "?e + 52 = \<lfloor>log 2 x\<rfloor>"
    using assms by (simp add: ulp_exponent_def)
  have "(2::real) ^ 52 * 2 powi ?e = 2 powi (?e + 52)"
    by (simp add: power_int_add)
  also have "\<dots> \<le> x"
    using binade_of_pos(1) [OF assms(1)] e by simp
  finally have "of_int (2 ^ 52) \<le> x / 2 powi ?e"
    using u by (simp add: field_simps)
  then have "2 ^ 52 \<le> round_half_even (x / 2 powi ?e)"
    using round_half_even_mono round_half_even_of_int by metis
  then have "2 ^ 52 \<le> real_of_int (round_half_even (x / 2 powi ?e))"
    by (metis of_int_le_iff of_int_numeral of_int_power)
  then have "2 ^ 52 * 2 powi ?e \<le> real_of_int (round_half_even (x / 2 powi ?e)) * 2 powi ?e"
    using u by simp
  then show ?thesis
    using assms by (simp add: round_double_pos_eq power_int_add)
qed

lemma round_double_nonneg:
  assumes "0 \<le> x"
  shows "0 \<le> round_double x"
proof (cases "x = 0")
  case True
  then show ?thesis by (simp add: round_double_def)
next
  case False
  with assms have pos: "0 < x" by simp
  have "0 \<le> x / 2 powi ulp_exponent x"
    using pos by simp
  then have "0 \<le> round_half_even (x / 2 powi ulp_exponent x)"
    using round_half_even_mono [of 0] round_half_even_of_int [of 0] by simp
  then show ?thesis
    using pos by (simp add: round_double_pos_eq)
qed

lemma round_double_mono:
  assumes "0 \<le> x" "x \<le> y"
  shows "round_double x \<le> round_double y"
proof (cases "x = 0")
  case True
  then show ?thesis
    using assms round_double_nonneg [of y] by (simp add: round_double_def)
next
  case False
  with assms have px: "0 < x" and py: "0 < y" by simp_all
  have le: "ulp_exponent x \<le> ulp_exponent y"
    using px assms(2) by (rule ulp_exponent_mono)
  show ?thesis
  proof (cases "ulp_exponent x = ulp_exponent y")
    case True
    have "x / 2 powi ulp_exponent y \<le> y / 2 powi ulp_exponent y"
      using assms(2) by (simp add: divide_right_mono)
    then have "round_half_even (x / 2 powi ulp_exponent y) \<le> round_half_even (y / 2 powi ulp_exponent y)"
      by (rule round_half_even_mono)
    then show ?thesis
      using px py True by (simp add: round_double_pos_eq)
  next
    case False
    with le have lt: "ulp_exponent x + 1 \<le> ulp_exponent y" by simp
    have "- 1074 \<le> ulp_exponent x"
      by (simp add: ulp_exponent_def)
    with lt have "- 1073 \<le> ulp_exponent y"
      by simp
    then have "- 1021 \<le> max \<lfloor>log 2 \<bar>y\<bar>\<rfloor> (- 1022)"
      by (simp add: ulp_exponent_def)
    then have normal: "- 1022 \<le> \<lfloor>log 2 y\<rfloor>"
      using py by (simp add: max_def split: if_splits)
    have "round_double x \<le> 2 powi (ulp_exponent x + 53)"
      using px by (rule round_double_upper)
    also have "\<dots> \<le> 2 powi (ulp_exponent y + 52)"
      using lt by (intro two_powi_mono) simp
    also have "\<dots> \<le> round_double y"
      using py normal by (rule round_double_lower)
    finally show ?thesis .
  qed
qed

lemma bind_fault_Inr [simp]: "bind_fault (Inr v) f = f v"
  by (simp add: bind_fault_def)

lemma bind_fault_Inl [simp]: "bind_fault (Inl e) f = Inl e"
  by (simp add: bind_fault_def)

lemma round_double_65536: "round_double 65536 = 65536"
  by (subst round_double_binade [where k = 16]) (simp_all add: round_half_even_def)

lemma to_double_small:
  assumes "0 \<le> x" "x \<le> 65536"
  shows "to_double x = Inr (round_double x)"
proof -
  have "round_double x \<le> 65536"
    using round_double_mono [OF assms] round_double_65536 by simp
  moreover have "0 \<le> round_double x"
    using assms(1) by (rule round_double_nonneg)
  ultimately have "\<bar>round_double x\<bar> \<le> 65536"
    by simp
  also have "(65536::real) < 2 ^ 1024"
    by simp
  finally show ?thesis
    by (simp add: to_double_def)
qed

subsection \<open>Helpers for the gradient\<close>

lemma round_third: "round_double (100 / 3) = sens_third"
  unfolding sens_third_def
  by (subst round_double_binade [where k = 5]) (simp_all add: round_half_even_def)

lemma round_two_thirds: "round_double (200 / 3) = sens_two_thirds"
  unfolding sens_two_thirds_def
  by (subst round_double_binade [where k = 6]) (simp_all add: round_half_even_def)

lemma round_200: "round_double 200 = 200"
  by (subst round_double_binade [where k = 7]) (simp_all add: round_half_even_def)

lemma float_third: "float_truediv SENSITIVITY 3 = Inr sens_third"
  using to_double_small [of "100 / 3"] by (simp add: float_truediv_def SENSITIVITY_def round_third)

lemma float_twice: "float_mul 2 SENSITIVITY = Inr 200"
  using to_double_small [of 200] by (simp add: float_mul_def SENSITIVITY_def round_200)

lemma float_two_thirds: "float_truediv 200 3 = Inr sens_two_thirds"
  using to_double_small [of "200 / 3"] by (simp add: float_truediv_def round_two_thirds)

lemma third_bounds: "33 < sens_third" "sens_third < 34"
  by (simp_all add: sens_third_def)

lemma two_thirds_bounds: "66 < sens_two_thirds" "sens_two_thirds < 67" "sens_third < sens_two_thirds"
  by (simp_all add: sens_two_thirds_def sens_third_def)

text \<open>The three bands of the script's own setting, with the shared subterms evaluated.\<close>

lemma band1:
  assumes "amplitude < sens_third"
  shows "calculate_color amplitude =
           bind_fault (float_mul 255 amplitude) (\<lambda>p.
           bind_fault (float_truediv p sens_third) (\<lambda>q.
             Inr (0, py_int q, 255 - py_int q)))"
  using assms by (simp add: calculate_color_def calculate_color_with_def float_third Let_def)

lemma band2:
  assumes "sens_third \<le> amplitude" "amplitude < sens_two_thirds"
  shows "calculate_color amplitude =
           bind_fault (float_sub amplitude sens_third) (\<lambda>d.
           bind_fault (float_mul 255 d) (\<lambda>p.
           bind_fault (float_truediv p sens_third) (\<lambda>q.
             Inr (py_int q, 255, 0))))"
  using assms
  by (simp add: calculate_color_def calculate_color_with_def float_third float_twice
      float_two_thirds)

lemma band3:
  assumes "sens_two_thirds \<le> amplitude"
  shows "calculate_color amplitude =
           bind_fault (float_sub amplitude sens_two_thirds) (\<lambda>d.
           bind_fault (float_mul 255 d) (\<lambda>p.
           bind_fault (float_truediv p sens_third) (\<lambda>q.
             Inr (255, 255 - py_int q, 0))))"
proof -
  have "\<not> amplitude < sens_third"
    using assms two_thirds_bounds(3) by simp
  with assms show ?thesis
    by (simp add: calculate_color_def calculate_color_with_def float_third float_twice
        float_two_thirds)
qed

lemma to_double_eval:
  "0 \<le> x \<Longrightarrow> x \<le> 65536 \<Longrightarrow> round_double x = y \<Longrightarrow> to_double x = Inr y"
  using to_double_small [of x] by simp

lemma to_double_0: "to_double 0 = Inr 0"
  by (simp add: to_double_def round_double_def)

lemma py_int_nonneg: "0 \<le> x \<Longrightarrow> py_int x = \<lfloor>x\<rfloor>"
  by (simp add: py_int_def)

lemma round_255_third: "round_double (255 * sens_third) = 8500"
  unfolding sens_third_def
  by (subst round_double_binade [where k = 13]) (simp_all add: round_half_even_def)

lemma round_8500_third: "round_double (8500 / sens_third) = 8972014882652159 / 35184372088832"
  unfolding sens_third_def
  by (subst round_double_binade [where k = 7]) (simp_all add: round_half_even_def)

lemma round_band2_width: "round_double (sens_two_thirds - sens_third) = sens_third"
  unfolding sens_third_def sens_two_thirds_def
  by (subst round_double_binade [where k = 5]) (simp_all add: round_half_even_def)

lemma round_d100: "round_double (100 - sens_two_thirds) = 2345624805922133 / 70368744177664"
  unfolding sens_two_thirds_def
  by (subst round_double_binade [where k = 5]) (simp_all add: round_half_even_def)

lemma round_p100:
  "round_double (255 * (2345624805922133 / 70368744177664)) = 4672924418047999 / 549755813888"
  by (subst round_double_binade [where k = 13]) (simp_all add: round_half_even_def)

lemma round_q100:
  "round_double (4672924418047999 / 549755813888 / sens_third) = 8972014882652157 / 35184372088832"
  unfolding sens_third_def
  by (subst round_double_binade [where k = 7]) (simp_all add: round_half_even_def)

lemma round_d200: "round_double (200 - sens_two_thirds) = 2345624805922133 / 17592186044416"
  unfolding sens_two_thirds_def
  by (subst round_double_binade [where k = 7]) (simp_all add: round_half_even_def)

lemma round_p200:
  "round_double (255 * (2345624805922133 / 17592186044416)) = 4672924418047999 / 137438953472"
  by (subst round_double_binade [where k = 15]) (simp_all add: round_half_even_def)

lemma round_q200:
  "round_double (4672924418047999 / 137438953472 / sens_third) = 8972014882652157 / 8796093022208"
  unfolding sens_third_def
  by (subst round_double_binade [where k = 9]) (simp_all add: round_half_even_def)

lemma color_at_0: "calculate_color 0 = Inr (0, 0, 255)"
  using third_bounds
  by (simp add: band1 float_mul_def float_truediv_def to_double_0 py_int_def)

lemma color_at_third: "calculate_color sens_third = Inr (0, 255, 0)"
  using third_bounds two_thirds_bounds
  by (simp add: band2 float_sub_def float_mul_def float_truediv_def to_double_0 py_int_def)

lemma color_at_two_thirds: "calculate_color sens_two_thirds = Inr (255, 255, 0)"
  using third_bounds
  by (simp add: band3 float_sub_def float_mul_def float_truediv_def to_double_0 py_int_def)

lemma color_at_100: "calculate_color 100 = Inr (255, 1, 0)"
proof -
  have d: "float_sub 100 sens_two_thirds = Inr (2345624805922133 / 70368744177664)"
    unfolding float_sub_def
    by (rule to_double_eval [OF _ _ round_d100]) (simp_all add: sens_two_thirds_def)
  have p: "float_mul 255 (2345624805922133 / 70368744177664) = Inr (4672924418047999 / 549755813888)"
    unfolding float_mul_def
    by (rule to_double_eval [OF _ _ round_p100]) simp_all
  have "to_double (4672924418047999 / 549755813888 / sens_third) =
          Inr (8972014882652157 / 35184372088832)"
    by (rule to_double_eval [OF _ _ round_q100]) (simp_all add: sens_third_def)
  then have q: "float_truediv (4672924418047999 / 549755813888) sens_third =
             Inr (8972014882652157 / 35184372088832)"
    using third_bounds by (simp add: float_truediv_def)
  have "sens_two_thirds \<le> 100"
    using two_thirds_bounds by simp
  then show ?thesis
    by (simp add: band3 d p q py_int_def)
qed

lemma color_at_200: "calculate_color 200 = Inr (255, - 764, 0)"
proof -
  have d: "float_sub 200 sens_two_thirds = Inr (2345624805922133 / 17592186044416)"
    unfolding float_sub_def
    by (rule to_double_eval [OF _ _ round_d200]) (simp_all add: sens_two_thirds_def)
  have p: "float_mul 255 (2345624805922133 / 17592186044416) = Inr (4672924418047999 / 137438953472)"
    unfolding float_mul_def
    by (rule to_double_eval [OF _ _ round_p200]) simp_all
  have "to_double (4672924418047999 / 137438953472 / sens_third) =
          Inr (8972014882652157 / 8796093022208)"
    by (rule to_double_eval [OF _ _ round_q200]) (simp_all add: sens_third_def)
  then have q: "float_truediv (4672924418047999 / 137438953472) sens_third =
             Inr (8972014882652157 / 8796093022208)"
    using third_bounds by (simp add: float_truediv_def)
  have "sens_two_thirds \<le> 200"
    using two_thirds_bounds by simp
  then show ?thesis
    by (simp add: band3 d p q py_int_def)
qed

lemma scaled_quotient:
  assumes "0 \<le> d" "d \<le> sens_third"
  shows "\<exists>p q. float_mul 255 d = Inr p \<and> float_truediv p sens_third = Inr q
           \<and> 0 \<le> q \<and> q < 255"
proof -
  let ?p = "round_double (255 * d)"
  let ?q = "round_double (?p / sens_third)"
  have x: "0 \<le> 255 * d" "255 * d \<le> 255 * sens_third"
    using assms by simp_all
  have "255 * sens_third \<le> 65536"
    using third_bounds by simp
  with x have p: "float_mul 255 d = Inr ?p"
    by (simp add: float_mul_def to_double_small)
  have p0: "0 \<le> ?p"
    using x(1) by (rule round_double_nonneg)
  have p1: "?p \<le> 8500"
    using round_double_mono [OF x] round_255_third by simp
  have y: "0 \<le> ?p / sens_third" "?p / sens_third \<le> 8500 / sens_third"
    using p0 p1 third_bounds by (simp_all add: divide_right_mono)
  have "8500 / sens_third \<le> 65536"
    using third_bounds by (simp add: field_simps)
  with y have q: "float_truediv ?p sens_third = Inr ?q"
    using third_bounds by (simp add: float_truediv_def to_double_small)
  have q0: "0 \<le> ?q"
    using y(1) by (rule round_double_nonneg)
  have "?q \<le> 8972014882652159 / 35184372088832"
    using round_double_mono [OF y] round_8500_third by simp
  then have q1: "?q < 255"
    by simp
  from p q q0 q1 show ?thesis
    by blast
qed

lemma channel_of_quotient: "0 \<le> q \<Longrightarrow> q < 255 \<Longrightarrow> 0 \<le> py_int q \<and> py_int q \<le> 254"
  by (simp add: py_int_nonneg floor_less_iff le_floor_iff)

text \<open>
  Further values of the script's gradient: \<open>(50,255,0)\<close> at amplitude 40, where the
  quotient is 50.99999999999998; \<open>(255,-382,0)\<close> at 150; and \<open>OverflowError\<close> at
  \<open>2 ^ 1023\<close>, where \<open>255 * amplitude\<close> is infinite.
\<close>

lemma round_d40: "round_double (40 - sens_third) = 938249922368853 / 140737488355328"
  unfolding sens_third_def
  by (subst round_double_binade [where k = 2]) (simp_all add: round_half_even_def)

lemma round_p40:
  "round_double (255 * (938249922368853 / 140737488355328)) = 7476679068876797 / 4398046511104"
  by (subst round_double_binade [where k = 10]) (simp_all add: round_half_even_def)

lemma round_q40:
  "round_double (7476679068876797 / 4398046511104 / sens_third) = 7177611906121725 / 140737488355328"
  unfolding sens_third_def
  by (subst round_double_binade [where k = 5]) (simp_all add: round_half_even_def)

lemma color_at_40: "calculate_color 40 = Inr (50, 255, 0)"
proof -
  have d: "float_sub 40 sens_third = Inr (938249922368853 / 140737488355328)"
    unfolding float_sub_def
    by (rule to_double_eval [OF _ _ round_d40]) (simp_all add: sens_third_def)
  have p: "float_mul 255 (938249922368853 / 140737488355328) = Inr (7476679068876797 / 4398046511104)"
    unfolding float_mul_def
    by (rule to_double_eval [OF _ _ round_p40]) simp_all
  have "to_double (7476679068876797 / 4398046511104 / sens_third) =
          Inr (7177611906121725 / 140737488355328)"
    by (rule to_double_eval [OF _ _ round_q40]) (simp_all add: sens_third_def)
  then have q: "float_truediv (7476679068876797 / 4398046511104) sens_third =
             Inr (7177611906121725 / 140737488355328)"
    using third_bounds by (simp add: float_truediv_def)
  have "sens_third \<le> 40" "40 < sens_two_thirds"
    using third_bounds two_thirds_bounds by simp_all
  then show ?thesis
    by (simp add: band2 d p q py_int_def)
qed

lemma round_d150: "round_double (150 - sens_two_thirds) = 5864062014805333 / 70368744177664"
  unfolding sens_two_thirds_def
  by (subst round_double_binade [where k = 6]) (simp_all add: round_half_even_def)

lemma round_p150: "round_double (255 * (5864062014805333 / 70368744177664)) = 21250"
  by (subst round_double_binade [where k = 14]) (simp_all add: round_half_even_def)

lemma round_q150: "round_double (21250 / sens_third) = 1275 / 2"
  unfolding sens_third_def
  by (subst round_double_binade [where k = 9]) (simp_all add: round_half_even_def)

lemma color_at_150: "calculate_color 150 = Inr (255, - 382, 0)"
proof -
  have d: "float_sub 150 sens_two_thirds = Inr (5864062014805333 / 70368744177664)"
    unfolding float_sub_def
    by (rule to_double_eval [OF _ _ round_d150]) (simp_all add: sens_two_thirds_def)
  have p: "float_mul 255 (5864062014805333 / 70368744177664) = Inr 21250"
    unfolding float_mul_def
    by (rule to_double_eval [OF _ _ round_p150]) simp_all
  have "to_double (21250 / sens_third) = Inr (1275 / 2)"
    by (rule to_double_eval [OF _ _ round_q150]) (simp_all add: sens_third_def)
  then have q: "float_truediv 21250 sens_third = Inr (1275 / 2)"
    using third_bounds by (simp add: float_truediv_def)
  have "sens_two_thirds \<le> 150"
    using two_thirds_bounds by simp
  then show ?thesis
    by (simp add: band3 d p q py_int_def)
qed

lemma round_huge_diff: "round_double (2 ^ 1023 - sens_two_thirds) = 2 ^ 1023"
  unfolding sens_two_thirds_def
  by (subst round_double_binade [where k = 1022]) (simp_all add: round_half_even_def)

lemma round_huge_prod: "round_double (255 * 2 ^ 1023) = 255 * 2 ^ 1023"
  by (subst round_double_binade [where k = 1030]) (simp_all add: round_half_even_def)

lemma color_at_huge: "calculate_color (2 ^ 1023) = Inl OverflowError"
proof -
  have d: "float_sub (2 ^ 1023) sens_two_thirds = Inr (2 ^ 1023)"
    unfolding float_sub_def to_double_def round_huge_diff by simp
  have p: "float_mul 255 (2 ^ 1023) = Inl OverflowError"
    unfolding float_mul_def to_double_def round_huge_prod by simp
  have le: "sens_two_thirds \<le> 2 ^ 1023"
    using two_thirds_bounds by simp
  show ?thesis
    by (simp only: band3 [OF le] d p bind_fault_Inr bind_fault_Inl)
qed

subsection \<open>C4: the gradient at the band edges\<close>

text \<open>
  C4. With the script's sensitivity of 100, \<open>calculate_color\<close> returns \<open>(0,0,255)\<close> at
  amplitude 0, \<open>(0,255,0)\<close> at the float \<open>SENSITIVITY / 3\<close> and \<open>(255,255,0)\<close> at the float
  \<open>2 * SENSITIVITY / 3\<close>. At amplitude \<open>SENSITIVITY\<close> the quotient is
  254.99999999999991, which \<open>int()\<close> truncates to 254: the result is \<open>(255,1,0)\<close>, every
  channel within 1 of \<open>(255,0,0)\<close>.
\<close>

theorem calculate_color_band_edges:
  "calculate_color 0 = Inr (0, 0, 255)
   \<and> (\<exists>a. float_truediv SENSITIVITY 3 = Inr a \<and> calculate_color a = Inr (0, 255, 0))
   \<and> (\<exists>s a. float_mul 2 SENSITIVITY = Inr s \<and> float_truediv s 3 = Inr a
         \<and> calculate_color a = Inr (255, 255, 0))
   \<and> calculate_color SENSITIVITY = Inr (255, 1, 0)
   \<and> (\<exists>r g b. calculate_color SENSITIVITY = Inr (r, g, b)
         \<and> \<bar>r - 255\<bar> \<le> 1 \<and> \<bar>g - 0\<bar> \<le> 1 \<and> \<bar>b - 0\<bar> \<le> 1)"
proof -
  have a: "\<exists>a. float_truediv SENSITIVITY 3 = Inr a \<and> calculate_color a = Inr (0, 255, 0)"
    using float_third color_at_third by blast
  have b: "\<exists>s a. float_mul 2 SENSITIVITY = Inr s \<and> float_truediv s 3 = Inr a
             \<and> calculate_color a = Inr (255, 255, 0)"
    using float_twice float_two_thirds color_at_two_thirds by blast
  have c: "calculate_color SENSITIVITY = Inr (255, 1, 0)"
    using color_at_100 by (simp add: SENSITIVITY_def)
  from color_at_0 a b c show ?thesis
    by simp
qed

subsection \<open>C5: the range of the gradient's channels\<close>

text \<open>
  The claim as stated fails: the script does not clamp, and at amplitude 200 (twice the
  script's sensitivity) the green channel is \<open>-764\<close>.
\<close>

theorem calculate_color_unclamped: "calculate_color 200 = Inr (255, - 764, 0)"
  by (rule color_at_200)

text \<open>
  C5, amended. With the script's sensitivity of 100, for every amplitude from 0 to the
  sensitivity \<open>calculate_color\<close> returns a triple whose three channels all lie in
  \<open>[0, 255]\<close>.
\<close>

theorem calculate_color_range:
  assumes "0 \<le> amplitude" "amplitude \<le> SENSITIVITY"
  shows "\<exists>r g b. calculate_color amplitude = Inr (r, g, b)
           \<and> 0 \<le> r \<and> r \<le> 255 \<and> 0 \<le> g \<and> g \<le> 255 \<and> 0 \<le> b \<and> b \<le> 255"
proof -
  consider (1) "amplitude < sens_third"
    | (2) "sens_third \<le> amplitude" "amplitude < sens_two_thirds"
    | (3) "sens_two_thirds \<le> amplitude"
    by linarith
  then show ?thesis
  proof cases
    case 1
    obtain p q where "float_mul 255 amplitude = Inr p" "float_truediv p sens_third = Inr q"
      "0 \<le> q" "q < 255"
      using scaled_quotient [of amplitude] assms(1) 1 by auto
    then show ?thesis
      using channel_of_quotient [of q] by (simp add: band1 [OF 1])
  next
    case 2
    let ?d = "round_double (amplitude - sens_third)"
    have x: "0 \<le> amplitude - sens_third" "amplitude - sens_third \<le> sens_two_thirds - sens_third"
      using 2 by simp_all
    have "sens_two_thirds - sens_third \<le> 65536"
      using two_thirds_bounds third_bounds by simp
    with x have d: "float_sub amplitude sens_third = Inr ?d"
      by (simp add: float_sub_def to_double_small)
    have d0: "0 \<le> ?d"
      using x(1) by (rule round_double_nonneg)
    have d1: "?d \<le> sens_third"
      using round_double_mono [OF x] round_band2_width by simp
    obtain p q where "float_mul 255 ?d = Inr p" "float_truediv p sens_third = Inr q"
      "0 \<le> q" "q < 255"
      using scaled_quotient [OF d0 d1] by auto
    then show ?thesis
      using channel_of_quotient [of q] by (simp add: band2 [OF 2] d)
  next
    case 3
    let ?d = "round_double (amplitude - sens_two_thirds)"
    have x: "0 \<le> amplitude - sens_two_thirds" "amplitude - sens_two_thirds \<le> 100 - sens_two_thirds"
      using 3 assms(2) by (simp_all add: SENSITIVITY_def)
    have "100 - sens_two_thirds \<le> 65536"
      using two_thirds_bounds by simp
    with x have d: "float_sub amplitude sens_two_thirds = Inr ?d"
      by (simp add: float_sub_def to_double_small)
    have d0: "0 \<le> ?d"
      using x(1) by (rule round_double_nonneg)
    have "?d \<le> 2345624805922133 / 70368744177664"
      using round_double_mono [OF x] round_d100 by simp
    also have "\<dots> \<le> sens_third"
      by (simp add: sens_third_def)
    finally have d1: "?d \<le> sens_third" .
    obtain p q where "float_mul 255 ?d = Inr p" "float_truediv p sens_third = Inr q"
      "0 \<le> q" "q < 255"
      using scaled_quotient [OF d0 d1] by auto
    then show ?thesis
      using channel_of_quotient [of q] by (simp add: band3 [OF 3] d)
  qed
qed

theorem calculate_color_range_witness:
  "(0::real) \<le> 50 \<and> 50 \<le> SENSITIVITY
   \<and> (\<exists>r g b. calculate_color 50 = Inr (r, g, b)
         \<and> 0 \<le> r \<and> r \<le> 255 \<and> 0 \<le> g \<and> g \<le> 255 \<and> 0 \<le> b \<and> b \<le> 255)"
proof -
  have h: "(0::real) \<le> 50" "50 \<le> SENSITIVITY"
    by (simp_all add: SENSITIVITY_def)
  from calculate_color_range [OF h] h show ?thesis
    by blast
qed

subsection \<open>Helpers for constant chunks\<close>

lemma log10_1000: "log 10 (1000::real) = 3"
proof -
  have "log 10 (1000::real) = log 10 (10 ^ 3)" by simp
  also have "\<dots> = 3" by (subst log_nat_power) simp_all
  finally show ?thesis .
qed

lemma rms_replicate: "0 < n \<Longrightarrow> rms (replicate n a) = \<bar>a\<bar>"
  by (simp add: rms_def map_replicate_const sum_list_replicate)

lemma replicate_nonsilent: "0 < n \<Longrightarrow> a \<noteq> 0 \<Longrightarrow> \<not> list_all (\<lambda>x. x = 0) (replicate n (a::real))"
  by (cases n) auto

lemma decibel_of_constant:
  assumes "0 < n" "0 < a"
  shows "get_decibel_level self (replicate n a) =
           Inr (max (min_db self) (20 * log 10 (a / (20 / 10 ^ 6))))"
  using assms decibel_of_nonsilent [OF replicate_nonsilent [of n a], of self]
  by (simp add: rms_replicate)

subsection \<open>C6: monotonicity of the decibel level\<close>

text \<open>
  The claim as stated fails: the floor makes the level constant below it. With the floor 40
  of the \<open>__main__\<close> block, the constant chunks of amplitude 0.00002 and 0.0002 both have
  level 40.
\<close>

theorem decibel_floor_plateau:
  "(1 / 50000 :: real) < 1 / 5000
   \<and> get_decibel_level visualizer [1 / 50000] = Inr 40
   \<and> get_decibel_level visualizer [1 / 5000] = Inr 40"
proof -
  have a: "get_decibel_level visualizer (replicate 1 (1 / 50000)) = Inr 40"
    by (subst decibel_of_constant) (simp_all add: visualizer_def)
  have "log 10 (1 / 5000 / (20 / 10 ^ 6)) = log 10 (10 powr 1)"
    by simp
  then have l: "log 10 (1 / 5000 / (20 / 10 ^ 6)) = 1"
    by simp
  have b: "get_decibel_level visualizer (replicate 1 (1 / 5000)) = Inr 40"
    by (subst decibel_of_constant) (simp_all add: visualizer_def l)
  from a b show ?thesis by simp
qed

text \<open>
  C6, amended. For constant chunks of the same positive length with amplitudes
  \<open>0 < a1 < a2\<close>, both levels are at least the floor and the level of the \<open>a1\<close> chunk is
  at most the level of the \<open>a2\<close> chunk; so when the \<open>a2\<close> chunk is at the floor, both are.
\<close>

theorem decibel_monotone:
  assumes "0 < n" "0 < a1" "a1 < a2"
  shows "\<exists>l1 l2. get_decibel_level self (replicate n a1) = Inr l1
               \<and> get_decibel_level self (replicate n a2) = Inr l2
               \<and> min_db self \<le> l1
               \<and> l1 \<le> l2
               \<and> (l2 = min_db self \<longrightarrow> l1 = min_db self)"
proof -
  from assms have a2: "0 < a2" by simp
  have "log 10 (a1 / (20 / 10 ^ 6)) < log 10 (a2 / (20 / 10 ^ 6))"
    using assms(2,3) by (simp add: divide_strict_right_mono)
  then have lt: "20 * log 10 (a1 / (20 / 10 ^ 6)) < 20 * log 10 (a2 / (20 / 10 ^ 6))"
    by simp
  show ?thesis
    using lt
    by (simp add: decibel_of_constant [OF assms(1,2)] decibel_of_constant [OF assms(1) a2])
qed

theorem decibel_monotone_witness:
  "(0::nat) < 1 \<and> (0::real) < 1 / 5000 \<and> (1 / 5000 :: real) < 1 / 50
   \<and> (\<exists>l1 l2. get_decibel_level visualizer [1 / 5000] = Inr l1
               \<and> get_decibel_level visualizer [1 / 50] = Inr l2
               \<and> min_db visualizer \<le> l1 \<and> l1 \<le> l2)"
proof -
  have h: "(0::nat) < 1" "(0::real) < 1 / 5000" "(1 / 5000 :: real) < 1 / 50"
    by simp_all
  from decibel_monotone [OF h, of visualizer] show ?thesis
    by auto
qed

subsection \<open>C2: construction and the bounds of the brightness mapping\<close>

text \<open>
  The claim as stated fails: \<open>__init__\<close> validates nothing. Constructing with floor and
  ceiling both 40 succeeds, and the division by zero is met in \<open>map_brightness\<close>, when a
  frame is rendered.
\<close>

theorem init_accepts_equal_bounds:
  "(case init 300 18 800000 10 False 255 0 528384 44100 512 40 40 200 of
      Inl e \<Rightarrow> False
    | Inr v \<Rightarrow> map_brightness v 55 = Inl ZeroDivisionError)"
  by (simp add: init_def map_brightness_def py_truediv_def)

lemma map_brightness_equal_bounds:
  "min_db self = max_db self \<Longrightarrow> map_brightness self db = Inl ZeroDivisionError"
  by (simp add: map_brightness_def py_truediv_def)

lemma map_brightness_distinct_bounds:
  "min_db self \<noteq> max_db self \<Longrightarrow> \<exists>b. map_brightness self db = Inr b"
  by (simp add: map_brightness_def py_truediv_def)

text \<open>
  C2, amended. For every configuration, construction succeeds and stores floor and ceiling
  as given, with the run state initialised. When floor and ceiling are equal, every call of
  \<open>map_brightness\<close> on the constructed visualizer fails with a division by zero, so the
  error appears at render time; when they differ (also with the floor above the ceiling)
  \<open>map_brightness\<close> returns a value for every loudness.
\<close>

theorem init_no_validation:
  "\<exists>v. init n pin freq dma invert br ch stype rate chunk lo hi sens = Inr v
       \<and> min_db v = lo \<and> max_db v = hi
       \<and> audio_data v = [] \<and> \<not> audio_event v \<and> running v \<and> strip v = None
       \<and> (lo = hi \<longrightarrow> (\<forall>db. map_brightness v db = Inl ZeroDivisionError))
       \<and> (lo \<noteq> hi \<longrightarrow> (\<forall>db. \<exists>b. map_brightness v db = Inr b))"
  by (simp add: init_def map_brightness_equal_bounds map_brightness_distinct_bounds)

theorem init_no_validation_witness:
  "\<exists>v. init 300 18 800000 10 False 255 0 528384 44100 512 40 40 200 = Inr v
       \<and> min_db v = 40 \<and> max_db v = 40
       \<and> map_brightness v 55 = Inl ZeroDivisionError"
  using init_no_validation [of 300 18 800000 10 False 255 0 528384 44100 512 40 40 200]
  by auto

subsection \<open>Helpers for the strip's call record and the LED thread\<close>

lemma calls_fold_setPixelColor:
  "calls (fold (\<lambda>i. setPixelColor i c) ixs s) = calls s @ map (\<lambda>i. SetPixelColor i c) ixs"
  by (induction ixs arbitrary: s) (simp_all add: setPixelColor_def)

lemma num_fold_setPixelColor: "num (fold (\<lambda>i. setPixelColor i c) ixs s) = num s"
  by (induction ixs arbitrary: s) (simp_all add: setPixelColor_def)

lemma show_fill_eq:
  "show_strip (fill c s) = s\<lparr>calls := calls s @ map (\<lambda>i. SetPixelColor i c) [0..<num s] @ [Show]\<rparr>"
  by (simp add: show_strip_def fill_def numPixels_def calls_fold_setPixelColor
      num_fold_setPixelColor)

lemma update_leds_steps_add:
  "update_leds_steps (m + n) cfg =
     (case update_leds_steps m cfg of Inl e \<Rightarrow> Inl e | Inr cfg' \<Rightarrow> update_leds_steps n cfg')"
  by (induction m arbitrary: cfg) (simp_all split: sum.splits)

lemma blocked_while_event_clear:
  "\<not> audio_event self \<Longrightarrow> update_leds_steps n (AtWait, self) = Inr (AtWait, self)"
  by (induction n) (simp_all add: update_leds_step_def)

lemma get_decibel_level_cong:
  "min_db a = min_db b \<Longrightarrow> get_decibel_level a chunk = get_decibel_level b chunk"
  by (simp add: get_decibel_level_def split: sum.splits)

lemma map_brightness_cong:
  "min_db a = min_db b \<Longrightarrow> max_db a = max_db b \<Longrightarrow> map_brightness a db = map_brightness b db"
  by (simp add: map_brightness_def split: sum.splits)

lemma render_frame:
  assumes "audio_data self \<noteq> []" "strip self = Some s"
    and "get_decibel_level self (audio_data self) = Inr db" "map_brightness self db = Inr b"
  shows "render self =
           Inr (self\<lparr>strip := Some (s\<lparr>calls := calls s
                  @ map (\<lambda>i. SetPixelColor i (Color 0 b 0)) [0..<num s] @ [Show]\<rparr>)\<rparr>)"
  using assms by (simp add: render_def show_fill_eq)

lemma one_wake:
  assumes "running self" "audio_event self" "audio_data self \<noteq> []" "strip self = Some s"
    and "get_decibel_level self (audio_data self) = Inr db" "map_brightness self db = Inr b"
  shows "update_leds_steps 5 (AtWait, self) =
           Inr (AtWait, self\<lparr>audio_event := False,
                  strip := Some (s\<lparr>calls := calls s
                    @ map (\<lambda>i. SetPixelColor i (Color 0 b 0)) [0..<num s] @ [Show]\<rparr>)\<rparr>)"
proof -
  let ?s1 = "self\<lparr>audio_event := False\<rparr>"
  have d: "get_decibel_level ?s1 (audio_data ?s1) = Inr db"
    using assms(5) get_decibel_level_cong [of ?s1 self] by simp
  have m: "map_brightness ?s1 db = Inr b"
    using assms(6) map_brightness_cong [of ?s1 self] by simp
  have r: "render ?s1 = Inr (?s1\<lparr>strip := Some (s\<lparr>calls := calls s
                  @ map (\<lambda>i. SetPixelColor i (Color 0 b 0)) [0..<num s] @ [Show]\<rparr>)\<rparr>)"
    using assms(3,4) d m by (intro render_frame) simp_all
  have five: "(5::nat) = Suc (Suc (Suc (Suc (Suc 0))))" by simp
  show ?thesis
    unfolding five using assms(1,2) r by (simp add: update_leds_step_def)
qed

subsection \<open>C7: the handoff coalesces\<close>

text \<open>
  C7. Let the visualizer be running with its strip created and floor below ceiling, and let
  chunks \<open>c1\<close> and then \<open>c2\<close> (non-empty) be delivered with an empty status while the LED
  thread waits. The state after both deliveries is the state after delivering \<open>c2\<close> alone:
  \<open>c1\<close> is overwritten in the single slot. Woken, the LED thread is back in \<open>wait()\<close> after
  five steps, and however many more steps it is given, the strip has received exactly one
  frame, with the brightness of \<open>c2\<close>, followed by one \<open>show()\<close>.
\<close>

theorem handoff_coalesces:
  assumes "running self" "strip self = Some s" "min_db self < max_db self" "c2 \<noteq> []"
  shows "audio_callback (audio_callback self c1 f1 t1 0) c2 f2 t2 0 = audio_callback self c2 f2 t2 0
       \<and> (\<exists>db b. get_decibel_level self c2 = Inr db \<and> map_brightness self db = Inr b
            \<and> (\<forall>n. update_leds_steps (5 + n)
                      (AtWait, audio_callback (audio_callback self c1 f1 t1 0) c2 f2 t2 0) =
                    Inr (AtWait, self\<lparr>audio_data := c2, audio_event := False,
                           strip := Some (s\<lparr>calls := calls s
                             @ map (\<lambda>i. SetPixelColor i (Color 0 b 0)) [0..<num s] @ [Show]\<rparr>)\<rparr>)))"
proof -
  let ?s2 = "audio_callback (audio_callback self c1 f1 t1 0) c2 f2 t2 0"
  have eq: "?s2 = self\<lparr>audio_data := c2, audio_event := True\<rparr>"
    by (simp add: audio_callback_def)
  obtain db where db: "get_decibel_level self c2 = Inr db"
    by (cases "list_all (\<lambda>x. x = 0) c2") (auto simp: decibel_of_silent decibel_of_nonsilent)
  obtain b where b: "map_brightness self db = Inr b"
    using map_brightness_eq [OF assms(3)] by blast
  have db': "get_decibel_level ?s2 (audio_data ?s2) = Inr db"
    using db get_decibel_level_cong [of ?s2 self] by (simp add: eq)
  have b': "map_brightness ?s2 db = Inr b"
    using b map_brightness_cong [of ?s2 self] by (simp add: eq)
  have w: "update_leds_steps 5 (AtWait, ?s2) =
             Inr (AtWait, ?s2\<lparr>audio_event := False,
                    strip := Some (s\<lparr>calls := calls s
                      @ map (\<lambda>i. SetPixelColor i (Color 0 b 0)) [0..<num s] @ [Show]\<rparr>)\<rparr>)"
    using assms db' b' by (intro one_wake) (simp_all add: eq)
  have "update_leds_steps (5 + n) (AtWait, ?s2) =
          Inr (AtWait, self\<lparr>audio_data := c2, audio_event := False,
                 strip := Some (s\<lparr>calls := calls s
                   @ map (\<lambda>i. SetPixelColor i (Color 0 b 0)) [0..<num s] @ [Show]\<rparr>)\<rparr>)" for n
    by (simp only: update_leds_steps_add w) (simp add: eq blocked_while_event_clear)
  with db b show ?thesis
    by (auto simp: audio_callback_def)
qed

theorem handoff_coalesces_witness:
  "running (run_setup visualizer)
   \<and> strip (run_setup visualizer) = Some \<lparr>num = 300, calls = [StripBegin]\<rparr>
   \<and> min_db (run_setup visualizer) < max_db (run_setup visualizer)
   \<and> [1 / 50 :: real] \<noteq> []
   \<and> audio_callback (audio_callback (run_setup visualizer) [1 / 5000] 1 0 0) [1 / 50] 1 0 0 =
       audio_callback (run_setup visualizer) [1 / 50] 1 0 0
   \<and> (\<exists>db b. get_decibel_level (run_setup visualizer) [1 / 50] = Inr db
         \<and> map_brightness (run_setup visualizer) db = Inr b
         \<and> (\<forall>n. update_leds_steps (5 + n)
                   (AtWait, audio_callback (audio_callback (run_setup visualizer) [1 / 5000] 1 0 0)
                              [1 / 50] 1 0 0) =
                 Inr (AtWait, (run_setup visualizer)\<lparr>audio_data := [1 / 50], audio_event := False,
                        strip := Some (\<lparr>num = 300, calls = [StripBegin]\<rparr>\<lparr>calls :=
                          calls \<lparr>num = 300, calls = [StripBegin]\<rparr>
                          @ map (\<lambda>i. SetPixelColor i (Color 0 b 0))
                              [0..<num \<lparr>num = 300, calls = [StripBegin]\<rparr>] @ [Show]\<rparr>)\<rparr>)))"
proof -
  have h1: "running (run_setup visualizer)"
    by (simp add: run_setup_def visualizer_def)
  have h2: "strip (run_setup visualizer) = Some \<lparr>num = 300, calls = [StripBegin]\<rparr>"
    by (simp add: run_setup_def visualizer_def)
  have h3: "min_db (run_setup visualizer) < max_db (run_setup visualizer)"
    by (simp add: run_setup_def visualizer_def)
  have h4: "[1 / 50 :: real] \<noteq> []"
    by simp
  from handoff_coalesces [OF h1 h2 h3 h4, of "[1 / 5000]" 1 0 1 0] h1 h2 h3 h4
  show ?thesis by blast
qed

subsection \<open>C8: a delivery with an error status\<close>

text \<open>
  C8. When the status is non-empty, the class variant's \<open>audio_callback\<close> only prints the
  error line: the chunk slot, the wake signal, the running flag and the strip are unchanged,
  and a later delivery with an empty status is stored as usual. The script variant's
  \<open>audio_callback\<close> likewise returns without a fault and without touching the strip, having
  printed the error line.
\<close>

theorem error_status_drops_chunk:
  assumes "status \<noteq> 0"
  shows "audio_callback self indata frames time status =
           self\<lparr>console := console self @ [Error_in_audio_stream status]\<rparr>
       \<and> audio_data (audio_callback self indata frames time status) = audio_data self
       \<and> audio_event (audio_callback self indata frames time status) = audio_event self
       \<and> running (audio_callback self indata frames time status) = running self
       \<and> strip (audio_callback self indata frames time status) = strip self
       \<and> audio_data (audio_callback (audio_callback self indata frames time status)
                         indata' frames' time' 0) = indata'
       \<and> script_audio_callback t st indata frames time status =
           Inr (st\<lparr>out := out st @ [Error_in_audio_stream status]\<rparr>)"
  using assms by (simp add: audio_callback_def script_audio_callback_def)

theorem error_status_drops_chunk_witness:
  "(2::nat) \<noteq> 0
   \<and> audio_callback visualizer [1, 2] 2 0 2 =
       visualizer\<lparr>console := [Error_in_audio_stream 2]\<rparr>
   \<and> audio_data (audio_callback visualizer [1, 2] 2 0 2) = []
   \<and> \<not> audio_event (audio_callback visualizer [1, 2] 2 0 2)
   \<and> running (audio_callback visualizer [1, 2] 2 0 2)"
proof -
  have h: "(2::nat) \<noteq> 0" by simp
  have v: "console visualizer = []" "audio_data visualizer = []"
    "\<not> audio_event visualizer" "running visualizer"
    by (simp_all add: visualizer_def)
  from error_status_drops_chunk [OF h, of visualizer "[1, 2]" 2 0] v h show ?thesis
    by simp
qed

subsection \<open>C10: the script's colour order\<close>

lemma calls_set_pixels_ws281x:
  "calls (set_pixels_ws281x ps s) =
     calls s @ map (\<lambda>(i, r, g, b). SetPixelColor i (Color g r b)) ps"
  by (induction ps s rule: set_pixels_ws281x.induct) (simp_all add: setPixelColor_def)

lemma num_set_pixels_ws281x: "num (set_pixels_ws281x ps s) = num s"
  by (induction ps s rule: set_pixels_ws281x.induct) (simp_all add: setPixelColor_def)

text \<open>
  C10. In WS281x mode \<open>set_leds\<close> makes, for the pixel at index \<open>i\<close> with the triple
  \<open>(r, g, b)\<close>, the call \<open>setPixelColor(i, Color(g, r, b))\<close>, in index order, and then one
  \<open>show()\<close>; nothing else is called on the strip.
\<close>

theorem set_leds_ws281x_grb:
  "calls (set_leds WS281x led_data s) =
     calls s @ map (\<lambda>(i, r, g, b). SetPixelColor i (Color g r b)) (enumerate 0 led_data) @ [Show]
   \<and> num (set_leds WS281x led_data s) = num s"
  by (simp add: set_leds_def show_strip_def calls_set_pixels_ws281x num_set_pixels_ws281x)

subsection \<open>C9: blanking the strip on shutdown\<close>

lemma brightness_of_60: "map_brightness visualizer 60 = Inr 102"
  by (simp add: map_brightness_def py_truediv_def py_int_def visualizer_def)

lemma decibel_of_fiftieth: "get_decibel_level visualizer [1 / 50] = Inr 60"
proof -
  have "get_decibel_level visualizer (replicate 1 (1 / 50)) = Inr 60"
    by (subst decibel_of_constant) (simp_all add: visualizer_def log10_1000)
  then show ?thesis by simp
qed

text \<open>
  C9. The class variant does not blank the strip on every way out of \<open>run\<close>. When
  \<open>sd.InputStream(...)\<close> raises an \<open>Exception\<close>, the handler only prints the error: the
  strip has received \<open>begin()\<close> and nothing else, no pixel is set to black and nothing is
  committed.
\<close>

theorem run_exception_path_not_blanked:
  "run visualizer (InputStream_raised ''PortAudioError'') =
     Inr (visualizer\<lparr>strip := Some \<lparr>num = 300, calls = [StripBegin]\<rparr>,
            console := [Error_line ''PortAudioError'']\<rparr>)"
  by (simp add: run_def run_setup_def except_Exception_def visualizer_def)

text \<open>
  The same holds for every visualizer and every message, while the \<open>KeyboardInterrupt\<close>
  handler of the same \<open>try\<close> and, once its strip is bound, the \<open>finally\<close> block of the
  script do blank the strip.
\<close>

lemma run_exception_path_calls:
  "\<exists>v. run self (InputStream_raised e) = Inr v
       \<and> strip v = Some \<lparr>num = led_count self, calls = [StripBegin]\<rparr> \<and> running v = running self"
  by (simp add: run_def run_setup_def except_Exception_def)

lemma run_interrupt_path_calls:
  "\<exists>v. run self KeyboardInterrupt_raised = Inr v
       \<and> strip v = Some \<lparr>num = led_count self,
            calls = StripBegin # map (\<lambda>i. SetPixelColor i (Color 0 0 0)) [0..<led_count self] @ [Show]\<rparr>
       \<and> \<not> running v \<and> audio_event v \<and> stream v = Some Closed"
  by (simp add: run_def run_setup_def except_KeyboardInterrupt_def show_fill_eq)

lemma script_finally_blanks:
  "led_strip_obj st = Some s \<Longrightarrow>
   script_finally WS281x st =
     Inr (st\<lparr>led_strip_obj := Some (s\<lparr>calls := calls s
            @ map (\<lambda>i. SetPixelColor i (Color 0 0 0)) [0..<LED_COUNT] @ [Show]\<rparr>),
            out := out st @ [LEDs_cleared]\<rparr>)"
  by (simp add: script_finally_def show_strip_def calls_fold_setPixelColor
      num_fold_setPixelColor)

lemma script_finally_unbound:
  "led_strip_obj st = None \<Longrightarrow> script_finally WS281x st = Inl NameError"
  by (simp add: script_finally_def)

text \<open>
  The \<open>KeyboardInterrupt\<close> handler does not wait for the LED thread. A thread that has
  passed its test of \<open>running\<close> when the handler runs renders its frame after the blank
  frame has been committed: the last frame on the strip is green at brightness 102.
\<close>

theorem late_render_after_blank:
  "update_leds_steps 3 (AtWait, audio_callback listening [1 / 50] 1 0 0) =
     Inr (AtRender, listening\<lparr>audio_data := [1 / 50]\<rparr>)
   \<and> except_KeyboardInterrupt (listening\<lparr>audio_data := [1 / 50]\<rparr>) =
       Inr (listening\<lparr>audio_data := [1 / 50], running := False, audio_event := True,
              stream := Some Closed, console := [Listening, Stopping, Exiting],
              strip := Some \<lparr>num = 300, calls = StripBegin
                # map (\<lambda>i. SetPixelColor i (Color 0 0 0)) [0..<300] @ [Show]\<rparr>\<rparr>)
   \<and> update_leds_step (AtRender,
         listening\<lparr>audio_data := [1 / 50], running := False, audio_event := True,
              stream := Some Closed, console := [Listening, Stopping, Exiting],
              strip := Some \<lparr>num = 300, calls = StripBegin
                # map (\<lambda>i. SetPixelColor i (Color 0 0 0)) [0..<300] @ [Show]\<rparr>\<rparr>) =
       Inr (AtWhile,
         listening\<lparr>audio_data := [1 / 50], running := False, audio_event := True,
              stream := Some Closed, console := [Listening, Stopping, Exiting],
              strip := Some \<lparr>num = 300, calls = StripBegin
                # map (\<lambda>i. SetPixelColor i (Color 0 0 0)) [0..<300] @ [Show]
                @ map (\<lambda>i. SetPixelColor i (Color 0 102 0)) [0..<300] @ [Show]\<rparr>\<rparr>)"
proof -
  have three: "(3::nat) = Suc (Suc (Suc 0))" by simp
  have a: "update_leds_steps 3 (AtWait, audio_callback listening [1 / 50] 1 0 0) =
     Inr (AtRender, listening\<lparr>audio_data := [1 / 50]\<rparr>)"
    unfolding three
    by (simp add: update_leds_step_def audio_callback_def listening_def run_setup_def visualizer_def)
  have b: "except_KeyboardInterrupt (listening\<lparr>audio_data := [1 / 50]\<rparr>) =
       Inr (listening\<lparr>audio_data := [1 / 50], running := False, audio_event := True,
              stream := Some Closed, console := [Listening, Stopping, Exiting],
              strip := Some \<lparr>num = 300, calls = StripBegin
                # map (\<lambda>i. SetPixelColor i (Color 0 0 0)) [0..<300] @ [Show]\<rparr>\<rparr>)"
    by (simp add: except_KeyboardInterrupt_def show_fill_eq listening_def run_setup_def visualizer_def)
  let ?s3 = "listening\<lparr>audio_data := [1 / 50], running := False, audio_event := True,
              stream := Some Closed, console := [Listening, Stopping, Exiting],
              strip := Some \<lparr>num = 300, calls = StripBegin
                # map (\<lambda>i. SetPixelColor i (Color 0 0 0)) [0..<300] @ [Show]\<rparr>\<rparr>"
  have d: "get_decibel_level ?s3 (audio_data ?s3) = Inr 60"
    using decibel_of_fiftieth get_decibel_level_cong [of ?s3 visualizer "[1 / 50]"]
    by (simp add: listening_def run_setup_def visualizer_def)
  have m: "map_brightness ?s3 60 = Inr 102"
    using brightness_of_60 map_brightness_cong [of ?s3 visualizer 60]
    by (simp add: listening_def run_setup_def visualizer_def)
  have r: "render ?s3 = Inr (?s3\<lparr>strip := Some (\<lparr>num = 300, calls = StripBegin
                # map (\<lambda>i. SetPixelColor i (Color 0 0 0)) [0..<300] @ [Show]\<rparr>\<lparr>calls :=
                  calls \<lparr>num = 300, calls = StripBegin
                # map (\<lambda>i. SetPixelColor i (Color 0 0 0)) [0..<300] @ [Show]\<rparr>
                  @ map (\<lambda>i. SetPixelColor i (Color 0 102 0))
                      [0..<num \<lparr>num = 300, calls = StripBegin
                # map (\<lambda>i. SetPixelColor i (Color 0 0 0)) [0..<300] @ [Show]\<rparr>] @ [Show]\<rparr>)\<rparr>)"
    using d m by (intro render_frame) simp_all
  have c: "update_leds_step (AtRender, ?s3) =
       Inr (AtWhile,
         listening\<lparr>audio_data := [1 / 50], running := False, audio_event := True,
              stream := Some Closed, console := [Listening, Stopping, Exiting],
              strip := Some \<lparr>num = 300, calls = StripBegin
                # map (\<lambda>i. SetPixelColor i (Color 0 0 0)) [0..<300] @ [Show]
                @ map (\<lambda>i. SetPixelColor i (Color 0 102 0)) [0..<300] @ [Show]\<rparr>\<rparr>)"
    by (simp add: update_leds_step_def r)
  from a b c show ?thesis by blast
qed

end
